theory Spec2Isabelle
  imports Complex_Main
begin

section \<open>Values shared by the components of bot.py\<close>

text \<open>
  Python's \<open>str\<close> is modelled by \<open>string\<close>; a code point beyond ASCII is written as
  its UTF-8 bytes. Python's unbounded \<open>int\<close> is \<open>int\<close>. An exception that leaves a
  function is the \<open>Inl\<close> of a sum.
\<close>

datatype py_error = TypeError string | ValueError string | ZeroDivisionError string

datatype lang = En | Fa

text \<open>\<open>str(n)\<close> for an integer: decimal digits, a minus sign for a negative number.\<close>

definition digit_char :: "nat \<Rightarrow> char" where
  "digit_char d = ''0123456789'' ! (d mod 10)"

function str_nat :: "nat \<Rightarrow> string" where
  "str_nat n = (if n < 10 then [digit_char n] else str_nat (n div 10) @ [digit_char (n mod 10)])"
  by pat_completeness auto
termination
  by (relation "measure id") auto

declare str_nat.simps [simp del]

definition str_int :: "int \<Rightarrow> string" where
  "str_int i = (if i < 0 then CHR ''-'' # str_nat (nat (- i)) else str_nat (nat i))"

text \<open>Truthiness of an optional string: \<open>None\<close> and the empty string are false.\<close>

fun truthy :: "string option \<Rightarrow> bool" where
  "truthy None = False"
| "truthy (Some s) = (s \<noteq> [])"

text \<open>
  \<open>CURRENCY_SYMBOLS\<close> (lines 21-26), in the order of the source. The euro sign and the
  Farsi word are their UTF-8 bytes.
\<close>

definition CURRENCY_SYMBOLS :: "(string \<times> string) list" where
  "CURRENCY_SYMBOLS =
     [(''USD'', ''$''),
      (''EUR'', [CHR 0xE2, CHR 0x82, CHR 0xAC]),
      (''IRR'', ''IRR''),
      (''IRT'', [CHR 0xD8, CHR 0xAA, CHR 0xD9, CHR 0x88, CHR 0xD9, CHR 0x85,
                 CHR 0xD8, CHR 0xA7, CHR 0xD9, CHR 0x86])]"

text \<open>\<open>CURRENCY_SYMBOLS.get(currency, '$')\<close>.\<close>

definition currency_symbol_of :: "string \<Rightarrow> string" where
  "currency_symbol_of c = (case map_of CURRENCY_SYMBOLS c of None \<Rightarrow> ''$'' | Some s \<Rightarrow> s)"

subsection \<open>Settings: \<open>context.bot_data\<close>\<close>

text \<open>
  \<open>context.bot_data\<close> is a dictionary, filled from \<open>settings.json\<close> at startup. A
  reader \<open>.get(key, default)\<close> gets the default only when the key is absent: a key that
  holds \<open>null\<close> reads as \<open>None\<close>. The two notification switches and the threshold
  keep the three cases apart, because their defaults (\<open>True\<close>, \<open>5\<close>) differ from what
  \<open>None\<close> does. For \<open>is_running\<close> (default \<open>False\<close>), \<open>watched_product_id\<close> (default
  \<open>None\<close>) and \<open>currency\<close> (whose symbol is \<open>$\<close> for \<open>None\<close> as for the default) a
  \<open>null\<close> reads as the absent key does, so \<open>None\<close> stands for both. The language is
  one of the two keys of \<open>LANGUAGES\<close>, and the watched product id is the string
  \<open>str(product_id)\<close> that \<open>handle_text\<close> stores.
\<close>

datatype 'a setting = Unset | Null_setting | Set 'a

record settings =
  is_running :: "bool option"
  notify_low_stock :: "bool setting"
  notify_new_orders :: "bool setting"
  low_stock_threshold :: "int setting"
  watched_product_id :: "string option"
  language :: "lang option"
  currency :: "string option"

definition get_is_running :: "settings \<Rightarrow> bool" where
  "get_is_running bd = (case is_running bd of None \<Rightarrow> False | Some b \<Rightarrow> b)"

text \<open>
  The truth value of \<open>bot_data.get('notify_low_stock', True)\<close>, as \<open>not\<close> and \<open>if\<close>
  read it: \<open>None\<close> counts as false.
\<close>

definition get_notify_low_stock :: "settings \<Rightarrow> bool" where
  "get_notify_low_stock bd =
     (case notify_low_stock bd of Unset \<Rightarrow> True | Null_setting \<Rightarrow> False | Set b \<Rightarrow> b)"

definition get_notify_new_orders :: "settings \<Rightarrow> bool" where
  "get_notify_new_orders bd =
     (case notify_new_orders bd of Unset \<Rightarrow> True | Null_setting \<Rightarrow> False | Set b \<Rightarrow> b)"

text \<open>\<open>bot_data.get('low_stock_threshold', 5)\<close>: a number, or \<open>None\<close> for \<open>null\<close>.\<close>

definition get_low_stock_threshold :: "settings \<Rightarrow> int option" where
  "get_low_stock_threshold bd =
     (case low_stock_threshold bd of Unset \<Rightarrow> Some 5 | Null_setting \<Rightarrow> None | Set t \<Rightarrow> Some t)"

definition get_language :: "settings \<Rightarrow> lang" where
  "get_language bd = (case language bd of None \<Rightarrow> En | Some l \<Rightarrow> l)"

definition get_currency :: "settings \<Rightarrow> string" where
  "get_currency bd = (case currency bd of None \<Rightarrow> ''USD'' | Some c \<Rightarrow> c)"

subsection \<open>Messages\<close>

text \<open>
  A text taken from \<open>LANGUAGES[lang][key].format(...)\<close> is kept as its language, its key
  and its format arguments. The low-stock alert is kept as the currency symbol and, for
  each product it enumerates, the id, name, price and stock it prints.
\<close>

datatype msg =
    Not_authorized lang
  | Api_error lang string
  | Threshold_prompt lang
  | Threshold_set lang int
  | Threshold_error lang
  | Watch_prompt lang
  | Watch_set lang int "int option"
  | Watch_error lang
  | Currency_prompt lang
  | Currency_set lang string
  | Currency_error lang
  | Toggle_low_stock lang bool
  | Toggle_new_orders lang bool
  | Lang_set lang
  | Low_stock_alert string "(int \<times> string \<times> string \<times> int option) list"

section \<open>The low-stock monitor: \<open>check_low_stock\<close> (lines 285-333)\<close>

text \<open>
  A product is a JSON object. The record holds the fields the monitor and the keyboard of
  the product list read: \<open>id\<close>, \<open>name\<close>, \<open>price\<close>, \<open>stock_quantity\<close> and \<open>type\<close>, with
  the selectors \<open>pid\<close>, \<open>pname\<close>, \<open>pprice\<close>, \<open>stock_quantity\<close> and \<open>ptype\<close>. Every other
  field of the object is in the record's extension, so equality of two products is
  equality of all their fields. \<open>stock_quantity\<close> may be missing, \<open>null\<close> or a number.
\<close>

datatype stock = Absent | Null | Qty int

record product =
  pid :: int
  pname :: "string option"
  pprice :: "string option"
  stock_quantity :: stock
  ptype :: "string option"

text \<open>\<open>p.get('stock_quantity')\<close>: \<open>None\<close> for a missing key and for \<open>null\<close>.\<close>

fun get_stock :: "stock \<Rightarrow> int option" where
  "get_stock Absent = None"
| "get_stock Null = None"
| "get_stock (Qty q) = Some q"

text \<open>
  The retry loop of lines 298-303. \<open>fetch k\<close> is what the \<open>k\<close>-th call of
  \<open>fetch_products()\<close> in this cycle returns (\<open>None\<close>: the fetch failed); the first call
  is \<open>fetch 0\<close>, made before the loop, with \<open>attempts = 0\<close>. The result is the last
  value of \<open>products\<close> and of \<open>attempts\<close>.
\<close>

function retry_loop ::
  "(nat \<Rightarrow> 'p list option) \<Rightarrow> 'p list option \<Rightarrow> nat \<Rightarrow> 'p list option \<times> nat" where
  "retry_loop fetch products attempts =
     (if products = None \<and> attempts < 3
      then retry_loop fetch (fetch (attempts + 1)) (attempts + 1)
      else (products, attempts))"
  by pat_completeness auto
termination
  by (relation "measure (\<lambda>(fetch, products, attempts). 3 - attempts)") auto

declare retry_loop.simps [simp del]

definition fetch_with_retries :: "(nat \<Rightarrow> 'p list option) \<Rightarrow> 'p list option \<times> nat" where
  "fetch_with_retries fetch = retry_loop fetch (fetch 0) 0"

text \<open>The list comprehension of lines 311-314.\<close>

definition low_stock_products :: "'a product_scheme list \<Rightarrow> int \<Rightarrow> 'a product_scheme list" where
  "low_stock_products products threshold =
     filter (\<lambda>p. case get_stock (stock_quantity p) of None \<Rightarrow> False | Some q \<Rightarrow> q \<le> threshold)
       products"

text \<open>
  \<open>next((p for p in products if str(p['id']) == str(watched_product_id)), None)\<close>: the
  first product whose id prints as the watched id.
\<close>

definition find_watched :: "'a product_scheme list \<Rightarrow> string \<Rightarrow> 'a product_scheme option" where
  "find_watched products wid = find (\<lambda>p. str_int (pid p) = wid) products"

text \<open>
  \<open>watched_product.get('stock_quantity', float('inf')) <= low_stock_threshold\<close>: a missing
  key compares as infinity, \<open>null\<close> is \<open>None\<close>, and \<open>None <= int\<close> raises \<open>TypeError\<close>.
\<close>

fun watched_le_threshold :: "stock \<Rightarrow> int \<Rightarrow> py_error + bool" where
  "watched_le_threshold Absent t = Inr False"
| "watched_le_threshold Null t =
     Inl (TypeError ''<= not supported between instances of NoneType and int'')"
| "watched_le_threshold (Qty q) t = Inr (q \<le> t)"

text \<open>
  Lines 317-320: the watched product is appended when its stock is at most the
  threshold and no equal record is in the list already. A product found by
  \<open>find_watched\<close> has an id, so as a dictionary it is not empty and counts as true.
\<close>

definition add_watched_product ::
  "'a product_scheme list \<Rightarrow> int \<Rightarrow> string option \<Rightarrow> 'a product_scheme list
     \<Rightarrow> py_error + 'a product_scheme list" where
  "add_watched_product products threshold watched low =
     (if truthy watched then
        (case find_watched products (the watched) of
           None \<Rightarrow> Inr low
         | Some w \<Rightarrow>
            (case watched_le_threshold (stock_quantity w) threshold of
               Inl e \<Rightarrow> Inl e
             | Inr b \<Rightarrow> Inr (if b then (if w \<notin> set low then low @ [w] else low) else low)))
      else Inr low)"

definition low_stock_set ::
  "'a product_scheme list \<Rightarrow> int \<Rightarrow> string option \<Rightarrow> py_error + 'a product_scheme list" where
  "low_stock_set products threshold watched =
     add_watched_product products threshold watched (low_stock_products products threshold)"

text \<open>
  The same lines when the threshold read from the settings is \<open>None\<close>: the comprehension
  raises \<open>TypeError\<close> at the first product whose stock is a number (for the others
  \<open>is not None\<close> fails first), and the comparison of line 319 raises it for a watched
  product that is found, whatever its stock.
\<close>

fun watched_le_none :: "stock \<Rightarrow> py_error" where
  "watched_le_none Absent = TypeError ''<= not supported between instances of float and NoneType''"
| "watched_le_none Null = TypeError ''<= not supported between instances of NoneType and NoneType''"
| "watched_le_none (Qty q) = TypeError ''<= not supported between instances of int and NoneType''"

definition low_stock_set_no_threshold ::
  "'a product_scheme list \<Rightarrow> string option \<Rightarrow> py_error + 'a product_scheme list" where
  "low_stock_set_no_threshold products watched =
     (if list_ex (\<lambda>p. get_stock (stock_quantity p) \<noteq> None) products then
        Inl (TypeError ''<= not supported between instances of int and NoneType'')
      else if truthy watched then
        (case find_watched products (the watched) of
           None \<Rightarrow> Inr []
         | Some w \<Rightarrow> Inl (watched_le_none (stock_quantity w)))
      else Inr [])"

text \<open>Lines 309-320 for the threshold as \<open>get_low_stock_threshold\<close> reads it.\<close>

definition low_stock_set_of ::
  "'a product_scheme list \<Rightarrow> int option \<Rightarrow> string option \<Rightarrow> py_error + 'a product_scheme list" where
  "low_stock_set_of products threshold watched =
     (case threshold of
        Some t \<Rightarrow> low_stock_set products t watched
      | None \<Rightarrow> low_stock_set_no_threshold products watched)"

text \<open>One item of the alert (lines 325-328): id, name, price, stock, with the defaults.\<close>

definition alert_item :: "'a product_scheme \<Rightarrow> int \<times> string \<times> string \<times> int option" where
  "alert_item p =
     (pid p,
      (case pname p of None \<Rightarrow> ''Unnamed Product'' | Some n \<Rightarrow> n),
      (case pprice p of None \<Rightarrow> ''N/A'' | Some c \<Rightarrow> c),
      (case stock_quantity p of Absent \<Rightarrow> Some 0 | Null \<Rightarrow> None | Qty q \<Rightarrow> Some q))"

text \<open>
  What one cycle did: the number of calls of \<open>fetch_products()\<close>, the messages handed to
  \<open>send_message\<close> with their chat id, and the low-stock list (\<open>None\<close> when the cycle
  ended before computing it).
\<close>

record 'a cycle =
  fetch_calls :: nat
  sent :: "(string \<times> msg) list"
  low_stock :: "'a product_scheme list option"

definition check_low_stock ::
  "settings \<Rightarrow> string option \<Rightarrow> (nat \<Rightarrow> 'a product_scheme list option) \<Rightarrow> py_error + 'a cycle" where
  "check_low_stock bd chat_id fetch =
     (if \<not> get_is_running bd then
        Inr \<lparr>fetch_calls = 0, sent = [], low_stock = None\<rparr>
      else if \<not> get_notify_low_stock bd then
        Inr \<lparr>fetch_calls = 0, sent = [], low_stock = None\<rparr>
      else if \<not> truthy chat_id then
        Inr \<lparr>fetch_calls = 0, sent = [], low_stock = None\<rparr>
      else
        (let lang = get_language bd;
             currency_symbol = currency_symbol_of (get_currency bd);
             (products, attempts) = fetch_with_retries fetch
         in case products of
              None \<Rightarrow>
                Inr \<lparr>fetch_calls = attempts + 1,
                     sent = [(the chat_id,
                              Api_error lang ''Failed to fetch products after 3 attempts'')],
                     low_stock = None\<rparr>
            | Some ps \<Rightarrow>
               (case low_stock_set_of ps (get_low_stock_threshold bd) (watched_product_id bd) of
                  Inl e \<Rightarrow> Inl e
                | Inr low \<Rightarrow>
                    Inr \<lparr>fetch_calls = attempts + 1,
                         sent = (if low \<noteq> []
                                 then [(the chat_id, Low_stock_alert currency_symbol (map alert_item low))]
                                 else []),
                         low_stock = Some low\<rparr>)))"

section \<open>The store gateway (lines 77-180)\<close>

text \<open>
  The three settings of the environment that \<open>get_woocommerce_api\<close> reads
  (\<open>os.getenv\<close>: \<open>None\<close> when the variable is not set).
\<close>

record env =
  wc_api_key :: "string option"
  wc_api_secret :: "string option"
  store_url :: "string option"

record wc_client =
  url :: string
  consumer_key :: string
  consumer_secret :: string

text \<open>\<open>get_woocommerce_api\<close> (lines 77-94): \<open>all([...])\<close> fails on a missing or empty value.\<close>

definition get_woocommerce_api :: "env \<Rightarrow> py_error + wc_client" where
  "get_woocommerce_api e =
     (if \<not> (truthy (wc_api_key e) \<and> truthy (wc_api_secret e) \<and> truthy (store_url e)) then
        Inl (ValueError
          ''Please set WOOCOMMERCE_API_KEY, WOOCOMMERCE_API_SECRET, and WOOCOMMERCE_STORE_URL in .env'')
      else
        Inr \<lparr>url = the (store_url e), consumer_key = the (wc_api_key e),
             consumer_secret = the (wc_api_secret e)\<rparr>)"

text \<open>\<open>str(e)\<close> of an exception: its message.\<close>

fun str_error :: "py_error \<Rightarrow> string" where
  "str_error (TypeError m) = m"
| "str_error (ValueError m) = m"
| "str_error (ZeroDivisionError m) = m"

text \<open>
  A remote call is a request handed to the client's \<open>get\<close> or \<open>put\<close>: the endpoint and
  the parameters or the payload, a dictionary in insertion order. What the store answers
  is not the program's to decide: \<open>http\<close> maps a request to the outcome of the call
  followed by \<open>raise_for_status()\<close> and \<open>json()\<close>: the decoded body, a
  \<open>requests.exceptions.RequestException\<close> or any other exception, with its message.
\<close>

datatype 'c jval = JInt int | JStr "'c list" | JBool bool

datatype 'c request =
    Get string "(string \<times> 'c jval) list"
  | Put string "(string \<times> 'c jval) list"

datatype 'b http_result = Http_ok 'b | Request_exception string | Other_exception string

text \<open>
  A search query is a Python string: a sequence of characters, each one code point. The
  type of a character is the type variable \<open>'c\<close> (the examples take the number of the code
  point), so a character of a query is one element of the list, never several bytes.

  \<open>str.isalpha\<close> and \<open>str.isalnum\<close>: true when the string is not empty and every
  character is alphabetic, or alphanumeric. Python calls a character alphanumeric when it
  is alphabetic or decimal, digit or numeric. Which characters are alphabetic and which are
  numeric is Unicode's table; here the two classes are the parameters \<open>alpha\<close> and
  \<open>numeric\<close>.
\<close>

definition str_isalpha :: "('c \<Rightarrow> bool) \<Rightarrow> 'c list \<Rightarrow> bool" where
  "str_isalpha alpha s = (s \<noteq> [] \<and> list_all alpha s)"

definition str_isalnum :: "('c \<Rightarrow> bool) \<Rightarrow> ('c \<Rightarrow> bool) \<Rightarrow> 'c list \<Rightarrow> bool" where
  "str_isalnum alpha numeric s = (s \<noteq> [] \<and> list_all (\<lambda>c. alpha c \<or> numeric c) s)"

text \<open>The parameters of the search request (lines 118-122).\<close>

definition search_params ::
  "('c \<Rightarrow> bool) \<Rightarrow> ('c \<Rightarrow> bool) \<Rightarrow> 'c list \<Rightarrow> (string \<times> 'c jval) list" where
  "search_params alpha numeric query =
     (if str_isalnum alpha numeric query \<and> \<not> str_isalpha alpha query
      then [(''per_page'', JInt 50), (''sku'', JStr query)]
      else [(''per_page'', JInt 50), (''search'', JStr query)])"

text \<open>
  \<open>search_products\<close> (lines 114-133): the products found (\<open>None\<close> after any exception) and
  the remote calls made. An exception of \<open>get_woocommerce_api\<close> is caught by the same
  handler, before any call.
\<close>

definition search_products ::
  "env \<Rightarrow> ('c request \<Rightarrow> 'p list http_result) \<Rightarrow> ('c \<Rightarrow> bool) \<Rightarrow> ('c \<Rightarrow> bool) \<Rightarrow> 'c list
     \<Rightarrow> 'p list option \<times> 'c request list" where
  "search_products e http alpha numeric query =
     (case get_woocommerce_api e of
        Inl err \<Rightarrow> (None, [])
      | Inr wcapi \<Rightarrow>
          (let req = Get ''products'' (search_params alpha numeric query)
           in case http req of
                Http_ok products \<Rightarrow> (Some products, [req])
              | Request_exception m \<Rightarrow> (None, [req])
              | Other_exception m \<Rightarrow> (None, [req])))"

text \<open>
  \<open>update_product\<close> (lines 153-180): the pair it returns and the remote calls made.
  \<open>product_id\<close> and \<open>variation_id\<close> are the texts the f-string prints, \<open>price\<close> is the
  text \<open>str(price)\<close> and \<open>stock\<close> the integer \<open>int(stock)\<close>.
\<close>

definition update_product ::
  "env \<Rightarrow> (char request \<Rightarrow> 'b http_result) \<Rightarrow> string \<Rightarrow> string option \<Rightarrow> int option
     \<Rightarrow> string option \<Rightarrow> (bool \<times> string) \<times> char request list" where
  "update_product e http product_id price stock variation_id =
     (case get_woocommerce_api e of
        Inl err \<Rightarrow> ((False, ''Unexpected error: '' @ str_error err), [])
      | Inr wcapi \<Rightarrow>
          (let data =
                 (case price of None \<Rightarrow> [] | Some p \<Rightarrow> [(''regular_price'', JStr p)]) @
                 (case stock of None \<Rightarrow> []
                  | Some s \<Rightarrow> [(''stock_quantity'', JInt s), (''manage_stock'', JBool True)])
           in if data = [] then ((False, ''No updates provided.''), [])
              else
                (let endpoint = ''products/'' @ product_id @
                       (if truthy variation_id then ''/variations/'' @ the variation_id else []);
                     req = Put endpoint data
                 in case http req of
                      Http_ok body \<Rightarrow> ((True, ''Update successful!''), [req])
                    | Request_exception m \<Rightarrow> ((False, ''Update failed: '' @ m), [req])
                    | Other_exception m \<Rightarrow> ((False, ''Unexpected error: '' @ m), [req]))))"

section \<open>The presentation formatter: \<open>format_products\<close> and \<open>format_orders\<close>\<close>

text \<open>
  A slice \<open>xs[start:stop]\<close>: a negative bound counts from the end, and both bounds are
  clamped to the list.
\<close>

definition slice_bound :: "int \<Rightarrow> int \<Rightarrow> int" where
  "slice_bound n i = (if i < 0 then max (i + n) 0 else min i n)"

definition py_slice :: "'a list \<Rightarrow> int \<Rightarrow> int \<Rightarrow> 'a list" where
  "py_slice xs start stop =
     (let n = int (length xs); lo = slice_bound n start; hi = slice_bound n stop
      in take (nat (hi - lo)) (drop (nat lo) xs))"

text \<open>Floor division \<open>a // b\<close>; \<open>div\<close> on \<open>int\<close> rounds down as Python does.\<close>

definition floordiv :: "int \<Rightarrow> int \<Rightarrow> py_error + int" where
  "floordiv a b =
     (if b = 0 then Inl (ZeroDivisionError ''integer division or modulo by zero'')
      else Inr (a div b))"

text \<open>An inline button: its label and its callback data. A keyboard is a list of rows.\<close>

datatype button = InlineKeyboardButton string string

definition previous_label :: string where
  "previous_label = [CHR 0xE2, CHR 0x8F, CHR 0xAE] @ '' Previous''"

definition next_label :: string where
  "next_label = ''Next '' @ [CHR 0xE2, CHR 0x8F, CHR 0xAD]"

definition orders_header :: string where
  "orders_header =
     [CHR 0xF0, CHR 0x9F, CHR 0x93, CHR 0xA6] @ '' **Recent Orders**'' @ [CHR 0x0A, CHR 0x0A]"

definition products_header :: string where
  "products_header =
     [CHR 0xF0, CHR 0x9F, CHR 0x9B, CHR 0x8D, CHR 0xEF, CHR 0xB8, CHR 0x8F] @
     '' **Product List**'' @ [CHR 0x0A, CHR 0x0A]"

text \<open>The footer \<open>f"Page {page + 1} of {total_pages}"\<close>.\<close>

definition page_footer :: "int \<Rightarrow> int \<Rightarrow> string" where
  "page_footer page total_pages = ''Page '' @ str_int (page + 1) @ '' of '' @ str_int total_pages"

text \<open>
  \<open>format_orders\<close> (lines 478-508). The text of one order (lines 494-497) is built from
  the order's fields and the currency symbol; it is the parameter \<open>order_text\<close>. The message
  is the header, the text of each order of the page and the footer.
\<close>

definition format_orders ::
  "(string \<Rightarrow> 'o \<Rightarrow> string) \<Rightarrow> 'o list \<Rightarrow> int \<Rightarrow> int \<Rightarrow> string
     \<Rightarrow> py_error + string \<times> button list list option" where
  "format_orders order_text orders page per_page currency' =
     (if orders = [] then Inr (''No recent orders found.'', None)
      else
        (let currency_symbol = currency_symbol_of currency';
             start_idx = page * per_page;
             end_idx = start_idx + per_page
         in case floordiv (int (length orders) + per_page - 1) per_page of
              Inl err \<Rightarrow> Inl err
            | Inr total_pages \<Rightarrow>
                if start_idx \<ge> int (length orders) then Inr (''No more orders to show.'', None)
                else
                  (let order_subset = py_slice orders start_idx end_idx;
                       message = orders_header
                         @ concat (map (order_text currency_symbol) order_subset)
                         @ page_footer page total_pages;
                       keyboard =
                         (if page > 0
                          then [InlineKeyboardButton previous_label (''orders_'' @ str_int (page - 1))]
                          else []) @
                         (if end_idx < int (length orders)
                          then [InlineKeyboardButton next_label (''orders_'' @ str_int (page + 1))]
                          else [])
                   in Inr (message, if keyboard \<noteq> [] then Some [keyboard] else None))))"

text \<open>
  \<open>format_products\<close> (lines 349-409). The text of one product (lines 366-390, which for a
  variable product includes what \<open>fetch_variations\<close> returns) is the parameter
  \<open>product_text\<close>. The keyboard has one row for each variable product of the page and a
  last row with the pagination buttons.
\<close>

definition format_products ::
  "(string \<Rightarrow> 'a product_scheme \<Rightarrow> string) \<Rightarrow> 'a product_scheme list \<Rightarrow> int \<Rightarrow> int \<Rightarrow> string
     \<Rightarrow> py_error + string \<times> button list list option" where
  "format_products product_text products page per_page currency' =
     (if products = [] then Inr (''No products found.'', None)
      else
        (let currency_symbol = currency_symbol_of currency';
             start_idx = page * per_page;
             end_idx = start_idx + per_page
         in case floordiv (int (length products) + per_page - 1) per_page of
              Inl err \<Rightarrow> Inl err
            | Inr total_pages \<Rightarrow>
                if start_idx \<ge> int (length products) then Inr (''No more products to show.'', None)
                else
                  (let product_subset = py_slice products start_idx end_idx;
                       message = products_header
                         @ concat (map (product_text currency_symbol) product_subset)
                         @ page_footer page total_pages;
                       variation_rows =
                         map (\<lambda>p. [InlineKeyboardButton (''Variations for '' @ str_int (pid p))
                                     (''vars_'' @ str_int (pid p))])
                           (filter (\<lambda>p. ptype p = Some ''variable'') product_subset);
                       pagination_row =
                         (if page > 0
                          then [InlineKeyboardButton previous_label (''products_'' @ str_int (page - 1))]
                          else []) @
                         (if end_idx < int (length products)
                          then [InlineKeyboardButton next_label (''products_'' @ str_int (page + 1))]
                          else []);
                       keyboard = variation_rows @ (if pagination_row \<noteq> [] then [pagination_row] else [])
                   in Inr (message, if keyboard \<noteq> [] then Some keyboard else None))))"

section \<open>The command dispatcher and the settings dialogue (lines 636-1115)\<close>

text \<open>
  \<open>context.user_data\<close>: the three flags of the conversation. A key that was never set
  reads as \<open>False\<close> (\<open>.get(key, False)\<close>).
\<close>

record user_flags =
  awaiting_threshold :: bool
  awaiting_watch_product :: bool
  awaiting_currency :: bool

text \<open>
  What a handler does besides changing the two dictionaries, in the order it does it:
  answering a callback query, replying to a message, editing the message of a callback
  query, writing the settings file, and calling \<open>fetch_products()\<close>.
\<close>

datatype effect =
    Answer_callback
  | Reply_text msg
  | Edit_message_text msg
  | Save_settings settings
  | Fetch_products

record ctx =
  bot_data :: settings
  user_data :: user_flags
  effects :: "effect list"

datatype update_kind = Message | Callback_query

text \<open>
  \<open>check_admin\<close> (lines 636-644). \<open>admin_ids\<close> is the list that line 638 reads from
  \<open>ADMIN_IDS\<close>; \<open>user_id\<close> is the sender of the message or of the callback query.
\<close>

definition check_admin :: "int list \<Rightarrow> update_kind \<Rightarrow> int \<Rightarrow> ctx \<Rightarrow> bool \<times> ctx" where
  "check_admin admin_ids kind user_id c =
     (let lang = get_language (bot_data c)
      in if admin_ids = [] \<or> user_id \<notin> set admin_ids then
           (False,
            c\<lparr>effects := effects c @
                 [case kind of
                    Message \<Rightarrow> Reply_text (Not_authorized lang)
                  | Callback_query \<Rightarrow> Edit_message_text (Not_authorized lang)]\<rparr>)
         else (True, c))"

text \<open>
  The twelve command handlers (lines 647-976) all begin with the same two lines; what a
  handler does after them is the parameter \<open>body\<close>.
\<close>

definition command_handler :: "int list \<Rightarrow> (ctx \<Rightarrow> ctx) \<Rightarrow> int \<Rightarrow> ctx \<Rightarrow> ctx" where
  "command_handler admin_ids body user_id c0 =
     (case check_admin admin_ids Message user_id c0 of
        (ok, c) \<Rightarrow> if \<not> ok then c else body c)"

text \<open>
  \<open>button\<close> (lines 979-1074). The branches for the settings are modelled in full; the
  branches after them (pagination, variations, updates and order status, lines 1015-1074)
  are the parameter \<open>other_callback\<close>.
\<close>

definition button :: "int list \<Rightarrow> (string \<Rightarrow> ctx \<Rightarrow> ctx) \<Rightarrow> int \<Rightarrow> string \<Rightarrow> ctx \<Rightarrow> ctx" where
  "button admin_ids other_callback user_id callback_data c0 =
     (case check_admin admin_ids Callback_query user_id
             (c0\<lparr>effects := effects c0 @ [Answer_callback]\<rparr>) of
        (ok, c) \<Rightarrow>
          if \<not> ok then c
          else
            (let lang = get_language (bot_data c)
             in if callback_data = ''toggle_low_stock'' then
                  (let b = \<not> get_notify_low_stock (bot_data c);
                       bd = (bot_data c)\<lparr>notify_low_stock := Set b\<rparr>
                   in c\<lparr>bot_data := bd,
                        effects := effects c @
                          [Edit_message_text (Toggle_low_stock lang b), Save_settings bd]\<rparr>)
                else if callback_data = ''toggle_new_orders'' then
                  (let b = \<not> get_notify_new_orders (bot_data c);
                       bd = (bot_data c)\<lparr>notify_new_orders := Set b\<rparr>
                   in c\<lparr>bot_data := bd,
                        effects := effects c @
                          [Edit_message_text (Toggle_new_orders lang b), Save_settings bd]\<rparr>)
                else if callback_data = ''set_threshold'' then
                  c\<lparr>user_data := (user_data c)\<lparr>awaiting_threshold := True\<rparr>,
                    effects := effects c @ [Edit_message_text (Threshold_prompt lang)]\<rparr>
                else if callback_data = ''watch_product'' then
                  c\<lparr>user_data := (user_data c)\<lparr>awaiting_watch_product := True\<rparr>,
                    effects := effects c @ [Edit_message_text (Watch_prompt lang)]\<rparr>
                else if callback_data = ''set_currency'' then
                  c\<lparr>user_data := (user_data c)\<lparr>awaiting_currency := True\<rparr>,
                    effects := effects c @ [Edit_message_text (Currency_prompt lang)]\<rparr>
                else if callback_data = ''toggle_lang'' then
                  (let new_lang = (if get_language (bot_data c) = En then Fa else En);
                       bd = (bot_data c)\<lparr>language := Some new_lang\<rparr>
                   in c\<lparr>bot_data := bd,
                        effects := effects c @
                          [Edit_message_text (Lang_set new_lang), Save_settings bd]\<rparr>)
                else other_callback callback_data c))"

text \<open>
  \<open>handle_text\<close> (lines 1077-1115). \<open>py_int\<close> is Python's \<open>int\<close> on a string (\<open>None\<close>:
  it raises \<open>ValueError\<close>) and \<open>py_upper\<close> is \<open>str.upper\<close>; \<open>fetched\<close> is what
  \<open>fetch_products()\<close> returns if this update calls it.
\<close>

definition handle_text ::
  "int list \<Rightarrow> (string \<Rightarrow> int option) \<Rightarrow> (string \<Rightarrow> string) \<Rightarrow> int \<Rightarrow> string
     \<Rightarrow> 'a product_scheme list option \<Rightarrow> ctx \<Rightarrow> ctx" where
  "handle_text admin_ids py_int py_upper user_id text fetched c0 =
     (case check_admin admin_ids Message user_id c0 of
        (ok, c) \<Rightarrow>
          if \<not> ok then c
          else
            (let lang = get_language (bot_data c)
             in if awaiting_threshold (user_data c) then
                  (case py_int text of
                     None \<Rightarrow> c\<lparr>effects := effects c @ [Reply_text (Threshold_error lang)]\<rparr>
                   | Some threshold \<Rightarrow>
                       if threshold < 0 then
                         c\<lparr>effects := effects c @ [Reply_text (Threshold_error lang)]\<rparr>
                       else
                         (let bd = (bot_data c)\<lparr>low_stock_threshold := Set threshold\<rparr>
                          in c\<lparr>bot_data := bd,
                               user_data := (user_data c)\<lparr>awaiting_threshold := False\<rparr>,
                               effects := effects c @
                                 [Reply_text (Threshold_set lang threshold), Save_settings bd]\<rparr>))
                else if awaiting_watch_product (user_data c) then
                  (case py_int text of
                     None \<Rightarrow> c\<lparr>effects := effects c @ [Reply_text (Watch_error lang)]\<rparr>
                   | Some product_id \<Rightarrow>
                       if (case fetched of
                             None \<Rightarrow> False
                           | Some products \<Rightarrow>
                               products \<noteq> [] \<and> list_ex (\<lambda>p. pid p = product_id) products)
                       then
                         (let bd = (bot_data c)\<lparr>watched_product_id := Some (str_int product_id)\<rparr>
                          in c\<lparr>bot_data := bd,
                               user_data := (user_data c)\<lparr>awaiting_watch_product := False\<rparr>,
                               effects := effects c @
                                 [Fetch_products,
                                  Reply_text (Watch_set lang product_id (get_low_stock_threshold bd)),
                                  Save_settings bd]\<rparr>)
                       else
                         c\<lparr>effects := effects c @ [Fetch_products, Reply_text (Watch_error lang)]\<rparr>)
                else if awaiting_currency (user_data c) then
                  (let currency' = py_upper text
                   in if currency' \<in> set (map fst CURRENCY_SYMBOLS) then
                        (let bd = (bot_data c)\<lparr>currency := Some currency'\<rparr>
                         in c\<lparr>bot_data := bd,
                              user_data := (user_data c)\<lparr>awaiting_currency := False\<rparr>,
                              effects := effects c @
                                [Reply_text (Currency_set lang currency'), Save_settings bd]\<rparr>)
                      else c\<lparr>effects := effects c @ [Reply_text (Currency_error lang)]\<rparr>)
                else c))"

text \<open>
  An update and the handler that \<open>main\<close> registers for it (lines 1140-1153): a command,
  a callback query with its data, or a text message that is not a command, with what
  \<open>fetch_products()\<close> would return while it is handled.
\<close>

datatype command =
    Cmd_start | Cmd_settings | Cmd_stats | Cmd_bulkupdate | Cmd_help | Cmd_products
  | Cmd_search | Cmd_update | Cmd_orders | Cmd_order | Cmd_customers | Cmd_customer

datatype 'a update =
    Command_update command "string list"
  | Callback_update string
  | Text_update string "'a product_scheme list option"

text \<open>What stays the same during a run: the allow-list and the parts taken as parameters.\<close>

record bot =
  admin_ids_of :: "int list"
  int_of :: "string \<Rightarrow> int option"
  upper_of :: "string \<Rightarrow> string"
  command_body :: "command \<Rightarrow> string list \<Rightarrow> ctx \<Rightarrow> ctx"
  other_callback_of :: "string \<Rightarrow> ctx \<Rightarrow> ctx"

definition dispatch :: "bot \<Rightarrow> int \<Rightarrow> 'a update \<Rightarrow> ctx \<Rightarrow> ctx" where
  "dispatch b user_id u c =
     (case u of
        Command_update cmd args \<Rightarrow>
          command_handler (admin_ids_of b) (command_body b cmd args) user_id c
      | Callback_update callback_data \<Rightarrow>
          button (admin_ids_of b) (other_callback_of b) user_id callback_data c
      | Text_update text fetched \<Rightarrow>
          handle_text (admin_ids_of b) (int_of b) (upper_of b) user_id text fetched c)"

text \<open>A conversation: the updates of one user, handled one after the other.\<close>

fun run :: "bot \<Rightarrow> int \<Rightarrow> 'a update list \<Rightarrow> ctx \<Rightarrow> ctx" where
  "run b user_id [] c = c"
| "run b user_id (u # us) c = run b user_id us (dispatch b user_id u c)"

section \<open>Notions of the specification\<close>

text \<open>
  The watched product, the first fetched product whose id prints as the watched id, has a
  \<open>null\<close> stock.
\<close>

definition watched_stock_is_null :: "'a product_scheme list \<Rightarrow> string option \<Rightarrow> bool" where
  "watched_stock_is_null products watched =
     (truthy watched \<and>
      (case find_watched products (the watched) of
         None \<Rightarrow> False
       | Some w \<Rightarrow> stock_quantity w = Null))"

text \<open>The store client can be built: the three settings are present and not empty.\<close>

definition configured :: "env \<Rightarrow> bool" where
  "configured e = (truthy (wc_api_key e) \<and> truthy (wc_api_secret e) \<and> truthy (store_url e))"

text \<open>
  A numeric-looking alphanumeric token: not empty, made of letters and numerals only, with
  at least one numeral that is not a letter.
\<close>

definition numeric_looking_token :: "('c \<Rightarrow> bool) \<Rightarrow> ('c \<Rightarrow> bool) \<Rightarrow> 'c list \<Rightarrow> bool" where
  "numeric_looking_token alpha numeric q =
     (q \<noteq> [] \<and> list_all (\<lambda>c. alpha c \<or> numeric c) q \<and> list_ex (\<lambda>c. numeric c \<and> \<not> alpha c) q)"

text \<open>How many of the three flags of a conversation are set.\<close>

definition flags_set :: "user_flags \<Rightarrow> nat" where
  "flags_set f =
     length (filter id [awaiting_threshold f, awaiting_watch_product f, awaiting_currency f])"

definition at_most_one_flag :: "user_flags \<Rightarrow> bool" where
  "at_most_one_flag f = (flags_set f \<le> 1)"

definition no_flag :: "user_flags \<Rightarrow> bool" where
  "no_flag f = (flags_set f = 0)"

text \<open>The three prompt callbacks, and the updates of the settings dialogue.\<close>

fun is_prompt :: "'a update \<Rightarrow> bool" where
  "is_prompt (Callback_update d) = (d \<in> set [''set_threshold'', ''watch_product'', ''set_currency''])"
| "is_prompt (Command_update cmd args) = False"
| "is_prompt (Text_update text fetched) = False"

fun is_dialogue :: "'a update \<Rightarrow> bool" where
  "is_dialogue (Callback_update d) = (d \<in> set [''set_threshold'', ''watch_product'', ''set_currency''])"
| "is_dialogue (Command_update cmd args) = False"
| "is_dialogue (Text_update text fetched) = True"

text \<open>Every prompt callback of the conversation arrives while no flag is set.\<close>

fun prompts_when_idle :: "bot \<Rightarrow> int \<Rightarrow> 'a update list \<Rightarrow> ctx \<Rightarrow> bool" where
  "prompts_when_idle b user_id [] c = True"
| "prompts_when_idle b user_id (u # us) c =
     ((if is_prompt u then no_flag (user_data c) else True)
      \<and> prompts_when_idle b user_id us (dispatch b user_id u c))"

text \<open>The sender is on the allow-list.\<close>

definition authorised :: "bot \<Rightarrow> int \<Rightarrow> bool" where
  "authorised b user_id = (admin_ids_of b \<noteq> [] \<and> user_id \<in> set (admin_ids_of b))"

text \<open>
  The flag of a prompt callback; whether a reply is accepted as the answer to the prompt
  that is consulted first (threshold, then watched product, then currency): a
  non-negative integer, the id of a fetched product, a known currency code; and the flags
  after that prompt's flag is cleared.
\<close>

definition own_flag :: "string \<Rightarrow> user_flags \<Rightarrow> user_flags" where
  "own_flag d f =
     (if d = ''set_threshold'' then f\<lparr>awaiting_threshold := True\<rparr>
      else if d = ''watch_product'' then f\<lparr>awaiting_watch_product := True\<rparr>
      else if d = ''set_currency'' then f\<lparr>awaiting_currency := True\<rparr>
      else f)"

definition answer_accepted ::
  "bot \<Rightarrow> user_flags \<Rightarrow> string \<Rightarrow> 'a product_scheme list option \<Rightarrow> bool" where
  "answer_accepted b f reply fetched =
     (if awaiting_threshold f then
        (case int_of b reply of None \<Rightarrow> False | Some n \<Rightarrow> 0 \<le> n)
      else if awaiting_watch_product f then
        (case int_of b reply of
           None \<Rightarrow> False
         | Some i \<Rightarrow> (case fetched of None \<Rightarrow> False | Some ps \<Rightarrow> list_ex (\<lambda>p. pid p = i) ps))
      else if awaiting_currency f then
        upper_of b reply \<in> set [''USD'', ''EUR'', ''IRR'', ''IRT'']
      else False)"

definition clear_active :: "user_flags \<Rightarrow> user_flags" where
  "clear_active f =
     (if awaiting_threshold f then f\<lparr>awaiting_threshold := False\<rparr>
      else if awaiting_watch_product f then f\<lparr>awaiting_watch_product := False\<rparr>
      else if awaiting_currency f then f\<lparr>awaiting_currency := False\<rparr>
      else f)"

text \<open>
  Page \<open>p\<close> of a list in pages of 5, and the text of that page: the header, the entries
  and the footer "Page p+1 of ceil(n/5)", where \<open>n\<close> is the length of the list.
\<close>

definition page_entries :: "'a list \<Rightarrow> int \<Rightarrow> 'a list" where
  "page_entries xs p = take 5 (drop (5 * nat p) xs)"

definition page_text :: "string \<Rightarrow> ('a \<Rightarrow> string) \<Rightarrow> 'a list \<Rightarrow> int \<Rightarrow> string" where
  "page_text header entry_text xs p =
     header @ concat (map entry_text (page_entries xs p))
       @ ''Page '' @ str_int (p + 1) @ '' of '' @ str_int \<lceil>real (length xs) / 5\<rceil>"

section \<open>Example inputs\<close>

definition active_settings :: settings where
  "active_settings =
     \<lparr>is_running = Some True, notify_low_stock = Unset, notify_new_orders = Unset,
      low_stock_threshold = Set 5, watched_product_id = None, language = None,
      currency = None\<rparr>"

definition mug :: product where
  "mug = \<lparr>pid = 1, pname = Some ''Mug'', pprice = Some ''4.50'', stock_quantity = Qty 3,
          ptype = Some ''simple''\<rparr>"

definition lamp :: product where
  "lamp = \<lparr>pid = 2, pname = Some ''Lamp'', pprice = Some ''30.00'', stock_quantity = Qty 10,
           ptype = Some ''simple''\<rparr>"

definition kettle :: product where
  "kettle = \<lparr>pid = 3, pname = Some ''Kettle'', pprice = Some ''25.00'', stock_quantity = Qty 7,
             ptype = Some ''simple''\<rparr>"

definition ebook :: product where
  "ebook = \<lparr>pid = 7, pname = Some ''E-book'', pprice = Some ''9.00'', stock_quantity = Null,
            ptype = Some ''simple''\<rparr>"

definition no_credentials :: env where
  "no_credentials = \<lparr>wc_api_key = None, wc_api_secret = None, store_url = None\<rparr>"

definition shop_credentials :: env where
  "shop_credentials =
     \<lparr>wc_api_key = Some ''ck_1'', wc_api_secret = Some ''cs_1'',
      store_url = Some ''https://shop.example''\<rparr>"

text \<open>
  Instances of the parameters for the examples. A query is the list of the numbers of its
  code points; \<open>is_letter\<close> and \<open>is_numeral\<close> are Unicode's classes on the ASCII range
  and on the Arabic block (the letters U+0620 to U+064A and U+0671 to U+06D3, the digits
  U+0660 to U+0669 and U+06F0 to U+06F9), where the Arabic comma U+060C is neither. \<open>ascii_int\<close>
  and \<open>ascii_upper\<close> are \<open>int\<close> and \<open>upper\<close> on ASCII text.
\<close>

definition is_letter :: "nat \<Rightarrow> bool" where
  "is_letter c =
     ((65 \<le> c \<and> c \<le> 90) \<or> (97 \<le> c \<and> c \<le> 122)
      \<or> (1568 \<le> c \<and> c \<le> 1610) \<or> (1649 \<le> c \<and> c \<le> 1747))"

definition is_numeral :: "nat \<Rightarrow> bool" where
  "is_numeral c =
     ((48 \<le> c \<and> c \<le> 57) \<or> (1632 \<le> c \<and> c \<le> 1641) \<or> (1776 \<le> c \<and> c \<le> 1785))"

text \<open>
  The queries \<open>abc123\<close>, \<open>blue mug\<close>, and a Farsi letter (U+06CC) or the Arabic comma
  followed by the digit 1.
\<close>

definition query_abc123 :: "nat list" where
  "query_abc123 = [97, 98, 99, 49, 50, 51]"

definition query_blue_mug :: "nat list" where
  "query_blue_mug = [98, 108, 117, 101, 32, 109, 117, 103]"

definition query_yeh_1 :: "nat list" where
  "query_yeh_1 = [1740, 49]"

definition query_comma_1 :: "nat list" where
  "query_comma_1 = [1548, 49]"

definition ascii_numeric :: "char \<Rightarrow> bool" where
  "ascii_numeric c = (c \<in> set ''0123456789'')"

definition ascii_int :: "string \<Rightarrow> int option" where
  "ascii_int s =
     (if s \<noteq> [] \<and> list_all ascii_numeric s
      then Some (foldl (\<lambda>a c. 10 * a + (of_char c - 48)) 0 s)
      else None)"

definition ascii_upper :: "string \<Rightarrow> string" where
  "ascii_upper s =
     map (\<lambda>c. case map_of (zip ''abcdefghijklmnopqrstuvwxyz'' ''ABCDEFGHIJKLMNOPQRSTUVWXYZ'') c of
                None \<Rightarrow> c
              | Some u \<Rightarrow> u) s"

definition shop_bot :: bot where
  "shop_bot =
     \<lparr>admin_ids_of = [1001], int_of = ascii_int, upper_of = ascii_upper,
      command_body = (\<lambda>cmd args c. c), other_callback_of = (\<lambda>d c. c)\<rparr>"

definition fresh :: ctx where
  "fresh =
     \<lparr>bot_data = active_settings,
      user_data = \<lparr>awaiting_threshold = False, awaiting_watch_product = False,
                   awaiting_currency = False\<rparr>,
      effects = []\<rparr>"


definition awaiting_currency_only :: ctx where
  "awaiting_currency_only =
     fresh\<lparr>user_data := \<lparr>awaiting_threshold = False, awaiting_watch_product = False,
                            awaiting_currency = True\<rparr>\<rparr>"

definition settings_dialogue :: "unit update list" where
  "settings_dialogue =
     [Callback_update ''set_currency'', Text_update ''gbp'' None, Text_update ''eur'' None,
      Callback_update ''set_threshold'', Text_update ''10'' None]"

section \<open>Properties of the low-stock monitor\<close>

subsection \<open>The retry loop\<close>

lemma retry_loop_3: "retry_loop fetch products (Suc (Suc (Suc 0))) = (products, 3)"
  by (subst retry_loop.simps) (simp add: numeral_3_eq_3)

lemma retry_loop_2:
  "retry_loop fetch products (Suc (Suc 0)) =
     (if products = None then (fetch 3, 3) else (products, 2))"
  by (subst retry_loop.simps) (simp add: retry_loop_3 numeral_3_eq_3 numeral_2_eq_2)

lemma retry_loop_1:
  "retry_loop fetch products (Suc 0) =
     (if products = None then retry_loop fetch (fetch 2) (Suc (Suc 0)) else (products, 1))"
  by (subst retry_loop.simps) (simp add: numeral_2_eq_2)

lemma retry_loop_0:
  "retry_loop fetch products 0 =
     (if products = None then retry_loop fetch (fetch 1) (Suc 0) else (products, 0))"
  by (subst retry_loop.simps) simp

text \<open>
  The loop gives up after the fourth call: the call before the loop and three more
  inside it.
\<close>

lemma fetch_with_retries_unfold:
  "fetch_with_retries fetch =
     (if fetch 0 \<noteq> None then (fetch 0, 0)
      else if fetch 1 \<noteq> None then (fetch 1, 1)
      else if fetch 2 \<noteq> None then (fetch 2, 2)
      else (fetch 3, 3))"
  unfolding fetch_with_retries_def
  by (simp add: retry_loop_0 retry_loop_1 retry_loop_2 del: One_nat_def)

lemmas cycle_defs =
  check_low_stock_def fetch_with_retries_unfold get_is_running_def get_notify_low_stock_def
  get_language_def get_currency_def get_low_stock_threshold_def currency_symbol_of_def
  CURRENCY_SYMBOLS_def low_stock_set_of_def low_stock_set_def add_watched_product_def
  low_stock_products_def alert_item_def find_watched_def

lemma str_nat_digit: "n < 10 \<Longrightarrow> str_nat n = [digit_char n]"
  by (subst str_nat.simps) simp

lemma str_nat_not_Nil: "str_nat n \<noteq> []"
  by (subst str_nat.simps) simp

lemma str_int_not_Nil: "str_int i \<noteq> []"
  by (simp add: str_int_def str_nat_not_Nil)

text \<open>
  C1. The claim: the monitor makes up to 3 attempts in total, so a fetch that fails 3
  times in a row ends the cycle with one "repeated API failure" alert and no low-stock
  computation, whatever a later attempt would return. The code makes a fourth attempt:
  when the first three calls fail and the fourth returns a product with low stock, the
  cycle has made 4 calls, computes the low-stock list from the fourth result and sends the
  low-stock alert, and no failure alert.
\<close>

theorem check_low_stock_fourth_attempt:
  "check_low_stock active_settings (Some ''77'') (\<lambda>k. if k < 3 then None else Some [mug])
     = Inr \<lparr>fetch_calls = 4,
            sent = [(''77'', Low_stock_alert ''$'' [(1, ''Mug'', ''4.50'', Some 3)])],
            low_stock = Some [mug]\<rparr>"
  by (simp add: cycle_defs active_settings_def mug_def)

subsection \<open>The low-stock list\<close>

lemma find_watched_mem:
  "find_watched ps wid = Some w \<Longrightarrow> w \<in> set ps \<and> str_int (pid w) = wid"
  unfolding find_watched_def by (auto simp: find_Some_iff)

lemma low_stock_products_iff:
  "p \<in> set (low_stock_products ps t) \<longleftrightarrow> p \<in> set ps \<and> (\<exists>q. stock_quantity p = Qty q \<and> q \<le> t)"
  unfolding low_stock_products_def by (cases "stock_quantity p") auto

lemma low_stock_products_filter:
  "low_stock_products ps t = filter (\<lambda>p. \<exists>q. stock_quantity p = Qty q \<and> q \<le> t) ps"
  unfolding low_stock_products_def
  by (rule filter_cong) (auto split: option.splits stock.splits elim: get_stock.elims)

text \<open>The step for the watched product never adds a product to the list of the sweep.\<close>

lemma add_watched_keeps:
  assumes "add_watched_product ps t watched (low_stock_products ps t) = Inr L"
  shows "L = low_stock_products ps t"
proof (cases "truthy watched")
  case False
  with assms show ?thesis by (simp add: add_watched_product_def)
next
  case True
  show ?thesis
  proof (cases "find_watched ps (the watched)")
    case None
    with True assms show ?thesis by (simp add: add_watched_product_def)
  next
    case (Some w)
    then have mem: "w \<in> set ps" by (simp add: find_watched_mem)
    show ?thesis
    proof (cases "stock_quantity w")
      case Absent
      with True Some assms show ?thesis by (simp add: add_watched_product_def)
    next
      case Null
      with True Some assms show ?thesis by (simp add: add_watched_product_def)
    next
      case (Qty q)
      with mem have "q \<le> t \<Longrightarrow> w \<in> set (low_stock_products ps t)"
        by (simp add: low_stock_products_iff)
      with True Some Qty assms show ?thesis
        by (auto simp: add_watched_product_def split: if_splits)
    qed
  qed
qed

lemma low_stock_set_Inr:
  "low_stock_set ps t watched = Inr L \<Longrightarrow> L = low_stock_products ps t"
  unfolding low_stock_set_def by (rule add_watched_keeps)

lemma count_list_filter: "count_list (filter P xs) x = (if P x then count_list xs x else 0)"
  by (induction xs) auto

lemma distinct_count_one: "distinct xs \<Longrightarrow> x \<in> set xs \<Longrightarrow> count_list xs x = 1"
  by (induction xs) auto

text \<open>
  The list of lines 309-320 for a numeric threshold: the exception for a watched product
  with a \<open>null\<close> stock, and the list of the sweep otherwise.
\<close>

lemma low_stock_set_cases:
  "low_stock_set ps t watched =
     (if watched_stock_is_null ps watched
      then Inl (TypeError ''<= not supported between instances of NoneType and int'')
      else Inr (low_stock_products ps t))"
proof (cases "truthy watched")
  case False
  then show ?thesis
    by (simp add: low_stock_set_def add_watched_product_def watched_stock_is_null_def)
next
  case True
  show ?thesis
  proof (cases "find_watched ps (the watched)")
    case None
    with True show ?thesis
      by (simp add: low_stock_set_def add_watched_product_def watched_stock_is_null_def)
  next
    case (Some w)
    then have mem: "w \<in> set ps" by (simp add: find_watched_mem)
    show ?thesis
    proof (cases "stock_quantity w")
      case Absent
      with True Some show ?thesis
        by (simp add: low_stock_set_def add_watched_product_def watched_stock_is_null_def)
    next
      case Null
      with True Some show ?thesis
        by (simp add: low_stock_set_def add_watched_product_def watched_stock_is_null_def)
    next
      case (Qty q)
      with mem have "q \<le> t \<Longrightarrow> w \<in> set (low_stock_products ps t)"
        by (simp add: low_stock_products_iff)
      with True Some Qty show ?thesis
        by (simp add: low_stock_set_def add_watched_product_def watched_stock_is_null_def)
    qed
  qed
qed

text \<open>
  C4. Take a cycle of the enabled monitor that fetched the products \<open>ps\<close>, with the
  threshold \<open>t\<close> that the settings hold (or \<open>t = 5\<close> when they hold none). Unless the
  watched product has a \<open>null\<close> stock, where the cycle ends in an exception and computes no
  list, the cycle returns, its low-stock list consists exactly of the fetched products
  whose stock is known (a number, not \<open>null\<close> and not missing) and at most \<open>t\<close>, in the
  order of the fetched list, and the alert that is sent enumerates exactly this list (no
  alert when it is empty).
\<close>

theorem cycle_low_stock_exact:
  assumes running: "get_is_running bd"
    and notifying: "get_notify_low_stock bd"
    and chat: "truthy chat_id"
    and fetched: "fetch_with_retries fetch = (Some ps, attempts)"
    and threshold: "low_stock_threshold bd = Set t \<or> (low_stock_threshold bd = Unset \<and> t = 5)"
  shows "check_low_stock bd chat_id fetch =
     (if watched_stock_is_null ps (watched_product_id bd)
      then Inl (TypeError ''<= not supported between instances of NoneType and int'')
      else Inr \<lparr>fetch_calls = attempts + 1,
                sent =
                  (if filter (\<lambda>p. \<exists>q. stock_quantity p = Qty q \<and> q \<le> t) ps = [] then []
                   else [(the chat_id,
                          Low_stock_alert (currency_symbol_of (get_currency bd))
                            (map alert_item
                               (filter (\<lambda>p. \<exists>q. stock_quantity p = Qty q \<and> q \<le> t) ps)))]),
                low_stock = Some (filter (\<lambda>p. \<exists>q. stock_quantity p = Qty q \<and> q \<le> t) ps)\<rparr>)"
proof -
  from threshold have thr: "get_low_stock_threshold bd = Some t"
    by (auto simp: get_low_stock_threshold_def)
  have "low_stock_set_of ps (get_low_stock_threshold bd) (watched_product_id bd) =
     (if watched_stock_is_null ps (watched_product_id bd)
      then Inl (TypeError ''<= not supported between instances of NoneType and int'')
      else Inr (filter (\<lambda>p. \<exists>q. stock_quantity p = Qty q \<and> q \<le> t) ps))"
    by (simp add: thr low_stock_set_of_def low_stock_set_cases low_stock_products_filter)
  with running notifying chat fetched show ?thesis
    by (simp add: check_low_stock_def)
qed

theorem cycle_low_stock_exact_witness:
  "check_low_stock (active_settings\<lparr>low_stock_threshold := Set 8\<rparr>) (Some ''77'')
       (\<lambda>k. Some [mug, lamp, kettle])
     = Inr \<lparr>fetch_calls = 1,
            sent = [(''77'', Low_stock_alert ''$''
                      [(1, ''Mug'', ''4.50'', Some 3), (3, ''Kettle'', ''25.00'', Some 7)])],
            low_stock = Some [mug, kettle]\<rparr>
   \<and> check_low_stock active_settings (Some ''77'') (\<lambda>k. Some [mug, lamp])
     = Inr \<lparr>fetch_calls = 1,
            sent = [(''77'', Low_stock_alert ''$'' [(1, ''Mug'', ''4.50'', Some 3)])],
            low_stock = Some [mug]\<rparr>"
proof -
  let ?eight = "active_settings\<lparr>low_stock_threshold := Set 8\<rparr>"
  have running: "get_is_running ?eight" "get_is_running active_settings"
    by (simp_all add: get_is_running_def active_settings_def)
  have notifying: "get_notify_low_stock ?eight" "get_notify_low_stock active_settings"
    by (simp_all add: get_notify_low_stock_def active_settings_def)
  have chat: "truthy (Some ''77'')" by simp
  have fetched3: "fetch_with_retries (\<lambda>k. Some [mug, lamp, kettle]) = (Some [mug, lamp, kettle], 0)"
    by (simp add: fetch_with_retries_unfold)
  have fetched2: "fetch_with_retries (\<lambda>k. Some [mug, lamp]) = (Some [mug, lamp], 0)"
    by (simp add: fetch_with_retries_unfold)
  have eight: "low_stock_threshold ?eight = Set 8 \<or> (low_stock_threshold ?eight = Unset \<and> (8::int) = 5)"
    by simp
  have five: "low_stock_threshold active_settings = Set 5
              \<or> (low_stock_threshold active_settings = Unset \<and> (5::int) = 5)"
    by (simp add: active_settings_def)
  have unwatched: "\<not> watched_stock_is_null [mug, lamp, kettle] (watched_product_id ?eight)"
    "\<not> watched_stock_is_null [mug, lamp] (watched_product_id active_settings)"
    by (simp_all add: watched_stock_is_null_def active_settings_def)
  have low8: "filter (\<lambda>p. \<exists>q. stock_quantity p = Qty q \<and> q \<le> 8) [mug, lamp, kettle] = [mug, kettle]"
    by (simp add: mug_def lamp_def kettle_def)
  have low5: "filter (\<lambda>p. \<exists>q. stock_quantity p = Qty q \<and> q \<le> 5) [mug, lamp] = [mug]"
    by (simp add: mug_def lamp_def)
  have sym: "currency_symbol_of (get_currency ?eight) = ''$''"
    "currency_symbol_of (get_currency active_settings) = ''$''"
    by (simp_all add: currency_symbol_of_def get_currency_def CURRENCY_SYMBOLS_def
        active_settings_def)
  have items: "map alert_item [mug, kettle]
                 = [(1, ''Mug'', ''4.50'', Some 3), (3, ''Kettle'', ''25.00'', Some 7)]"
    "map alert_item [mug] = [(1, ''Mug'', ''4.50'', Some 3)]"
    by (simp_all add: alert_item_def mug_def kettle_def)
  from cycle_low_stock_exact [OF running(1) notifying(1) chat fetched3 eight]
    cycle_low_stock_exact [OF running(2) notifying(2) chat fetched2 five]
    unwatched low8 low5 sym items
  show ?thesis by simp
qed

text \<open>
  C5. When the watched product (the first fetched product whose id prints as the watched
  id) is already in the list of the sweep, as an equal record, the low-stock list of the
  cycle is the list of the sweep: nothing is appended. The record occurs in it as often as
  in the fetched list, so exactly once when the fetched products are distinct.
\<close>

theorem watched_not_duplicated:
  assumes found: "find_watched ps wid = Some w"
    and natural: "w \<in> set (low_stock_products ps t)"
  shows "\<exists>L. low_stock_set ps t (Some wid) = Inr L
           \<and> L = low_stock_products ps t
           \<and> count_list L w = count_list ps w
           \<and> (distinct ps \<longrightarrow> count_list L w = 1)"
proof -
  from found have mem: "w \<in> set ps" and wid: "str_int (pid w) = wid"
    by (simp_all add: find_watched_mem)
  from wid have nonempty: "wid \<noteq> []" using str_int_not_Nil [of "pid w"] by simp
  from natural obtain q where q: "stock_quantity w = Qty q" "q \<le> t"
    by (auto simp: low_stock_products_iff)
  from found natural q nonempty
  have res: "low_stock_set ps t (Some wid) = Inr (low_stock_products ps t)"
    by (simp add: low_stock_set_def add_watched_product_def)
  from q have cnt: "count_list (low_stock_products ps t) w = count_list ps w"
    by (simp add: low_stock_products_filter count_list_filter)
  have "distinct ps \<Longrightarrow> count_list ps w = 1"
    using mem by (simp add: distinct_count_one)
  with res cnt show ?thesis by simp
qed

theorem watched_not_duplicated_witness:
  "find_watched [mug, lamp] ''1'' = Some mug
   \<and> mug \<in> set (low_stock_products [mug, lamp] 5)
   \<and> distinct [mug, lamp]
   \<and> low_stock_set [mug, lamp] 5 (Some ''1'') = Inr [mug]
   \<and> count_list [mug] mug = 1"
proof -
  have found: "find_watched [mug, lamp] ''1'' = Some mug"
    by (simp add: find_watched_def mug_def lamp_def str_int_def str_nat_digit digit_char_def)
  have natural: "mug \<in> set (low_stock_products [mug, lamp] 5)"
    by (simp add: low_stock_products_def mug_def lamp_def)
  have low: "low_stock_products [mug, lamp] 5 = [mug]"
    by (simp add: low_stock_products_def mug_def lamp_def)
  have dist: "distinct [mug, lamp]"
    by (simp add: mug_def lamp_def)
  from watched_not_duplicated [OF found natural] low found natural dist show ?thesis
    by auto
qed

text \<open>
  C10. The claim: the low-stock computation is total, also when the watched product has
  a \<open>null\<close> stock. The code compares \<open>None <= threshold\<close> there, which raises
  \<open>TypeError\<close>: with the watched id 7 and a fetched product 7 whose stock is \<open>null\<close> the
  cycle ends in the exception and sends nothing, although product 1 is low on stock.
\<close>

theorem check_low_stock_null_watched:
  "check_low_stock (active_settings\<lparr>watched_product_id := Some ''7''\<rparr>) (Some ''77'')
      (\<lambda>k. Some [mug, ebook])
     = Inl (TypeError ''<= not supported between instances of NoneType and int'')"
  by (simp add: cycle_defs active_settings_def mug_def ebook_def str_int_def str_nat_digit
      digit_char_def)

section \<open>Properties of the store gateway\<close>

lemma get_woocommerce_api_cases:
  "get_woocommerce_api e =
     (if configured e
      then Inr \<lparr>url = the (store_url e), consumer_key = the (wc_api_key e),
                consumer_secret = the (wc_api_secret e)\<rparr>
      else Inl (ValueError
        ''Please set WOOCOMMERCE_API_KEY, WOOCOMMERCE_API_SECRET, and WOOCOMMERCE_STORE_URL in .env''))"
  by (simp add: get_woocommerce_api_def configured_def)

text \<open>
  C6, as the claim states it, fails: \<open>update_product\<close> builds the store client before it
  looks at the payload, so with no credentials in the environment a call with neither a
  price nor a stock returns the message of the missing credentials, not
  "No updates provided.".
\<close>

theorem empty_update_without_credentials:
  "update_product no_credentials (\<lambda>r. Http_ok ()) ''42'' None None None
     = ((False,
         ''Unexpected error: Please set WOOCOMMERCE_API_KEY, WOOCOMMERCE_API_SECRET, and WOOCOMMERCE_STORE_URL in .env''),
        [])
   \<and> snd (fst (update_product no_credentials (\<lambda>r. Http_ok ()) ''42'' None None None))
       \<noteq> ''No updates provided.''"
  by (simp add: update_product_def get_woocommerce_api_cases configured_def no_credentials_def)

text \<open>
  C6, amended. Every call of \<open>update_product\<close> with neither a price nor a stock makes no
  remote call and returns the failure flag; the message is "No updates provided." when the
  store credentials are configured, and the "Unexpected error" message of the missing
  credentials when they are not.
\<close>

theorem empty_update_is_local:
  "update_product e http product_id None None variation_id =
     ((False,
       if configured e then ''No updates provided.''
       else ''Unexpected error: Please set WOOCOMMERCE_API_KEY, WOOCOMMERCE_API_SECRET, and WOOCOMMERCE_STORE_URL in .env''),
      [])"
  by (simp add: update_product_def get_woocommerce_api_cases)

text \<open>The condition of line 119 is the specification's numeric-looking alphanumeric token.\<close>

lemma sku_condition:
  "str_isalnum alpha numeric q \<and> \<not> str_isalpha alpha q
     \<longleftrightarrow> numeric_looking_token alpha numeric q"
proof -
  have "list_all (\<lambda>c. alpha c \<or> numeric c) q \<Longrightarrow>
        \<not> list_all alpha q \<longleftrightarrow> list_ex (\<lambda>c. numeric c \<and> \<not> alpha c) q"
    by (induction q) auto
  then show ?thesis
    by (auto simp: str_isalnum_def str_isalpha_def numeric_looking_token_def)
qed

text \<open>
  C9, as the claim states it, fails: \<open>search_products\<close> builds the store client first, so
  with no credentials in the environment it makes no lookup of either kind, also for a query
  that is not a numeric-looking token.
\<close>

theorem search_without_credentials:
  "\<not> numeric_looking_token is_letter is_numeral query_blue_mug
   \<and> search_products no_credentials (\<lambda>r. Http_ok [mug]) is_letter is_numeral query_blue_mug
       = (None, [])"
  by (simp add: search_products_def get_woocommerce_api_cases configured_def no_credentials_def
      numeric_looking_token_def query_blue_mug_def is_letter_def is_numeral_def)

text \<open>
  C9, amended. For every query, when the store credentials are configured
  \<open>search_products\<close> makes exactly one remote call, whatever the store answers: a lookup of
  the products by SKU (\<open>sku = query\<close>) exactly when the query is a numeric-looking
  alphanumeric token, and a free-text search (\<open>search = query\<close>) for every other query.
  When the credentials are missing it makes no call.
\<close>

theorem search_lookup_kind:
  "snd (search_products e http alpha numeric q) =
     (if configured e
      then [Get ''products''
              [(''per_page'', JInt 50),
               if numeric_looking_token alpha numeric q then (''sku'', JStr q)
               else (''search'', JStr q)]]
      else [])"
  using sku_condition [of alpha numeric q]
  by (simp add: search_products_def get_woocommerce_api_cases search_params_def Let_def
      split: http_result.splits)

theorem search_lookup_kind_witness:
  "snd (search_products shop_credentials (\<lambda>r. Http_ok [mug]) is_letter is_numeral query_abc123)
     = [Get ''products'' [(''per_page'', JInt 50), (''sku'', JStr query_abc123)]]
   \<and> snd (search_products shop_credentials (\<lambda>r. Http_ok [mug]) is_letter is_numeral query_blue_mug)
     = [Get ''products'' [(''per_page'', JInt 50), (''search'', JStr query_blue_mug)]]
   \<and> snd (search_products shop_credentials (\<lambda>r. Http_ok [mug]) is_letter is_numeral query_yeh_1)
     = [Get ''products'' [(''per_page'', JInt 50), (''sku'', JStr query_yeh_1)]]
   \<and> snd (search_products shop_credentials (\<lambda>r. Http_ok [mug]) is_letter is_numeral query_comma_1)
     = [Get ''products'' [(''per_page'', JInt 50), (''search'', JStr query_comma_1)]]"
proof -
  have c: "configured shop_credentials"
    by (simp add: configured_def shop_credentials_def)
  have n1: "numeric_looking_token is_letter is_numeral query_abc123"
    by (simp add: numeric_looking_token_def is_letter_def is_numeral_def query_abc123_def)
  have n2: "\<not> numeric_looking_token is_letter is_numeral query_blue_mug"
    by (simp add: numeric_looking_token_def is_letter_def is_numeral_def query_blue_mug_def)
  have n3: "numeric_looking_token is_letter is_numeral query_yeh_1"
    by (simp add: numeric_looking_token_def is_letter_def is_numeral_def query_yeh_1_def)
  have n4: "\<not> numeric_looking_token is_letter is_numeral query_comma_1"
    by (simp add: numeric_looking_token_def is_letter_def is_numeral_def query_comma_1_def)
  show ?thesis
    using search_lookup_kind
        [of shop_credentials "\<lambda>r. Http_ok [mug]" is_letter is_numeral query_abc123]
      search_lookup_kind
        [of shop_credentials "\<lambda>r. Http_ok [mug]" is_letter is_numeral query_blue_mug]
      search_lookup_kind
        [of shop_credentials "\<lambda>r. Http_ok [mug]" is_letter is_numeral query_yeh_1]
      search_lookup_kind
        [of shop_credentials "\<lambda>r. Http_ok [mug]" is_letter is_numeral query_comma_1]
      c n1 n2 n3 n4
    by simp
qed

section \<open>Properties of the presentation formatter\<close>

text \<open>The number of pages that the formatters compute is the ceiling of \<open>n / 5\<close>.\<close>

lemma total_pages_ceiling: "(int n + 5 - 1) div 5 = \<lceil>real n / 5\<rceil>"
proof -
  have "\<lceil>real n / 5\<rceil> = \<lceil>real_of_int (int n) / real_of_int 5\<rceil>" by simp
  also have "\<dots> = - (- int n div 5)" by (rule ceiling_divide_eq_div)
  also have "\<dots> = (int n + 5 - 1) div 5" by linarith
  finally show ?thesis by simp
qed

lemma page_in_range: "0 \<le> p \<Longrightarrow> p < \<lceil>real n / 5\<rceil> \<longleftrightarrow> p * 5 < int n"
proof -
  have "p < \<lceil>real n / 5\<rceil> \<longleftrightarrow> real_of_int p < real n / 5" by (rule less_ceiling_iff)
  also have "\<dots> \<longleftrightarrow> real_of_int p * 5 < real n" by (simp add: pos_less_divide_eq)
  also have "\<dots> \<longleftrightarrow> p * 5 < int n"
    by (metis of_int_of_nat_eq of_int_less_iff of_int_mult of_int_numeral)
  finally show ?thesis .
qed

text \<open>On a page inside the list the slice is the five records from \<open>5 * p\<close> on.\<close>

lemma page_slice:
  assumes "0 \<le> p" "p * 5 < int (length xs)"
  shows "py_slice xs (p * 5) (p * 5 + 5) = take 5 (drop (5 * nat p) xs)"
proof -
  have lo: "slice_bound (int (length xs)) (p * 5) = p * 5"
    using assms by (simp add: slice_bound_def)
  have hi: "slice_bound (int (length xs)) (p * 5 + 5) = min (p * 5 + 5) (int (length xs))"
    using assms by (simp add: slice_bound_def)
  have n5: "nat (p * 5) = 5 * nat p" using assms by (simp add: nat_mult_distrib)
  show ?thesis
  proof (cases "p * 5 + 5 \<le> int (length xs)")
    case True
    then show ?thesis by (simp add: py_slice_def lo hi n5 Let_def min_def)
  next
    case False
    then have "length (drop (5 * nat p) xs) \<le> 5" using assms n5 by simp
    moreover from False have "nat (int (length xs) - p * 5) = length (drop (5 * nat p) xs)"
      using assms n5 by simp
    ultimately show ?thesis using False by (simp add: py_slice_def lo hi n5 Let_def min_def)
  qed
qed

lemma page_length:
  assumes "0 \<le> p" "p * 5 < int (length xs)"
  shows "int (length (take 5 (drop (5 * nat p) xs))) = min 5 (int (length xs) - 5 * p)"
  using assms by (simp add: min_def) linarith

lemma page_entries_length:
  assumes "0 \<le> p" "p < \<lceil>real (length xs) / 5\<rceil>"
  shows "int (length (page_entries xs p)) = min 5 (int (length xs) - 5 * p)"
proof -
  from assms have "p * 5 < int (length xs)" by (simp add: page_in_range)
  with assms(1) show ?thesis unfolding page_entries_def by (simp add: page_length)
qed

lemma floordiv_5: "floordiv a 5 = Inr (a div 5)"
  by (simp add: floordiv_def)

lemma format_orders_page:
  assumes "orders \<noteq> []" "0 \<le> p" "p < \<lceil>real (length orders) / 5\<rceil>"
  shows "\<exists>markup. format_orders order_text orders p 5 cur =
           Inr (page_text orders_header (order_text (currency_symbol_of cur)) orders p, markup)"
proof -
  from assms have lt: "p * 5 < int (length orders)" by (simp add: page_in_range)
  then have slice: "py_slice orders (p * 5) (p * 5 + 5) = take 5 (drop (5 * nat p) orders)"
    using assms by (simp add: page_slice)
  show ?thesis
    using assms(1) lt slice total_pages_ceiling [of "length orders"]
    by (simp add: format_orders_def floordiv_5 Let_def page_text_def page_entries_def
        page_footer_def)
qed

lemma format_orders_beyond:
  assumes "orders \<noteq> []" "0 \<le> p" "\<lceil>real (length orders) / 5\<rceil> \<le> p"
  shows "format_orders order_text orders p 5 cur = Inr (''No more orders to show.'', None)"
proof -
  from assms have "\<not> p * 5 < int (length orders)"
    using page_in_range [of p "length orders"] by auto
  then show ?thesis using assms(1)
    by (simp add: format_orders_def floordiv_5 Let_def)
qed

lemma format_products_page:
  assumes "products \<noteq> []" "0 \<le> p" "p < \<lceil>real (length products) / 5\<rceil>"
  shows "\<exists>markup. format_products product_text products p 5 cur =
           Inr (page_text products_header (product_text (currency_symbol_of cur)) products p,
                markup)"
proof -
  from assms have lt: "p * 5 < int (length products)" by (simp add: page_in_range)
  then have slice: "py_slice products (p * 5) (p * 5 + 5) = take 5 (drop (5 * nat p) products)"
    using assms by (simp add: page_slice)
  show ?thesis
    using assms(1) lt slice total_pages_ceiling [of "length products"]
    by (simp add: format_products_def floordiv_5 Let_def page_text_def page_entries_def
        page_footer_def)
qed

lemma format_products_beyond:
  assumes "products \<noteq> []" "0 \<le> p" "\<lceil>real (length products) / 5\<rceil> \<le> p"
  shows "format_products product_text products p 5 cur = Inr (''No more products to show.'', None)"
proof -
  from assms have "\<not> p * 5 < int (length products)"
    using page_in_range [of p "length products"] by auto
  then show ?thesis using assms(1)
    by (simp add: format_products_def floordiv_5 Let_def)
qed

text \<open>
  C2. For every non-empty list of \<open>n\<close> records and every page index \<open>p \<ge> 0\<close>, with the
  page size 5 that every caller uses: when \<open>p < ceil(n/5)\<close>, \<open>format_orders\<close> and
  \<open>format_products\<close> return the text of page \<open>p\<close>, which holds the entries of the
  records \<open>5p, ..., 5p+4\<close> that exist, exactly \<open>min(5, n - 5p)\<close> of them, and the footer
  "Page p+1 of ceil(n/5)"; when \<open>p \<ge> ceil(n/5)\<close> they return the "No more ... to show."
  sentinel and no keyboard.
\<close>

theorem pagination:
  assumes "0 \<le> p"
  shows "(orders \<noteq> [] \<longrightarrow>
            (p < \<lceil>real (length orders) / 5\<rceil> \<longrightarrow>
               (\<exists>markup. format_orders order_text orders p 5 cur =
                  Inr (page_text orders_header (order_text (currency_symbol_of cur)) orders p,
                       markup))
               \<and> int (length (page_entries orders p)) = min 5 (int (length orders) - 5 * p))
          \<and> (\<lceil>real (length orders) / 5\<rceil> \<le> p \<longrightarrow>
               format_orders order_text orders p 5 cur = Inr (''No more orders to show.'', None)))
       \<and> (products \<noteq> [] \<longrightarrow>
            (p < \<lceil>real (length products) / 5\<rceil> \<longrightarrow>
               (\<exists>markup. format_products product_text products p 5 cur =
                  Inr (page_text products_header (product_text (currency_symbol_of cur)) products p,
                       markup))
               \<and> int (length (page_entries products p)) = min 5 (int (length products) - 5 * p))
          \<and> (\<lceil>real (length products) / 5\<rceil> \<le> p \<longrightarrow>
               format_products product_text products p 5 cur
                 = Inr (''No more products to show.'', None)))"
  using assms
  by (simp add: format_orders_page format_orders_beyond format_products_page
      format_products_beyond page_entries_length)

lemmas page_eval =
  format_orders_def format_products_def floordiv_def py_slice_def slice_bound_def
  page_footer_def str_int_def str_nat_digit digit_char_def currency_symbol_of_def
  CURRENCY_SYMBOLS_def Let_def

theorem pagination_witness:
  "format_orders (\<lambda>s n. str_nat n @ '';'') [1, 2, 3, 4, 5, 6, 7] 1 5 ''USD''
     = Inr (orders_header @ ''6;7;Page 2 of 2'',
            Some [[InlineKeyboardButton previous_label ''orders_0'']])
   \<and> int (length (page_entries [1, 2, 3, 4, 5, 6, 7::nat] 1)) = 2
   \<and> format_orders (\<lambda>s n. str_nat n @ '';'') [1, 2, 3, 4, 5, 6, 7] 2 5 ''USD''
     = Inr (''No more orders to show.'', None)
   \<and> format_products (\<lambda>s p. str_int (pid p) @ '';'') [mug, lamp] 0 5 ''USD''
     = Inr (products_header @ ''1;2;Page 1 of 1'', None)
   \<and> format_products (\<lambda>s p. str_int (pid p) @ '';'') [mug, lamp] 1 5 ''USD''
     = Inr (''No more products to show.'', None)"
proof -
  let ?ot = "\<lambda>(s::string) (n::nat). str_nat n @ '';''"
  let ?pt = "\<lambda>(s::string) (p::product). str_int (pid p) @ '';''"
  let ?os = "[1, 2, 3, 4, 5, 6, 7::nat]"
  have pages_o: "\<lceil>real (length ?os) / 5\<rceil> = 2" by simp
  have pages_p: "\<lceil>real (length [mug, lamp]) / 5\<rceil> = 1" by simp
  from pagination [of 1 ?os ?ot "''USD''" "[mug, lamp]" ?pt] pages_o pages_p
  have len: "int (length (page_entries ?os 1)) = 2"
    and beyond_p: "format_products ?pt [mug, lamp] 1 5 ''USD''
                     = Inr (''No more products to show.'', None)"
    by simp_all
  from pagination [of 2 ?os ?ot "''USD''" "[mug, lamp]" ?pt] pages_o
  have beyond_o: "format_orders ?ot ?os 2 5 ''USD'' = Inr (''No more orders to show.'', None)"
    by simp
  have page_o: "format_orders ?ot ?os 1 5 ''USD''
     = Inr (orders_header @ ''6;7;Page 2 of 2'',
            Some [[InlineKeyboardButton previous_label ''orders_0'']])"
    by (simp add: page_eval)
  have page_p: "format_products ?pt [mug, lamp] 0 5 ''USD''
     = Inr (products_header @ ''1;2;Page 1 of 1'', None)"
    by (simp add: page_eval mug_def lamp_def)
  from len beyond_p beyond_o page_o page_p show ?thesis by simp
qed

section \<open>Properties of the command dispatcher\<close>

lemma check_admin_denied:
  "admin_ids = [] \<or> user_id \<notin> set admin_ids \<Longrightarrow>
   check_admin admin_ids kind user_id c =
     (False, c\<lparr>effects := effects c @
        [case kind of Message \<Rightarrow> Reply_text (Not_authorized (get_language (bot_data c)))
         | Callback_query \<Rightarrow> Edit_message_text (Not_authorized (get_language (bot_data c)))]\<rparr>)"
  by (auto simp: check_admin_def Let_def)

lemma check_admin_allowed:
  "admin_ids \<noteq> [] \<Longrightarrow> user_id \<in> set admin_ids \<Longrightarrow>
   check_admin admin_ids kind user_id c = (True, c)"
  by (simp add: check_admin_def Let_def)

text \<open>
  C7. For every sender who is not on the allow-list (an empty allow-list included) and
  every update, a command, a callback query or a text message, the handler leaves the
  settings and the flags of the conversation as they were and does nothing but send the
  "not authorized" message: a reply for a message, an edit of the message for a callback
  query, after the answer to the query. No settings file is written and no store call is
  made: they would be effects.
\<close>

theorem unauthorized_is_denied:
  assumes "admin_ids_of b = [] \<or> user_id \<notin> set (admin_ids_of b)"
  shows "dispatch b user_id u c =
           c\<lparr>effects := effects c @
               (case u of
                  Command_update cmd args \<Rightarrow>
                    [Reply_text (Not_authorized (get_language (bot_data c)))]
                | Callback_update d \<Rightarrow>
                    [Answer_callback, Edit_message_text (Not_authorized (get_language (bot_data c)))]
                | Text_update text fetched \<Rightarrow>
                    [Reply_text (Not_authorized (get_language (bot_data c)))])\<rparr>"
proof (cases u)
  case (Command_update cmd args)
  with assms show ?thesis
    by (simp add: dispatch_def command_handler_def check_admin_denied)
next
  case (Callback_update d)
  with assms show ?thesis
    by (simp add: dispatch_def button_def check_admin_denied)
next
  case (Text_update reply fetched)
  with assms show ?thesis
    by (simp add: dispatch_def handle_text_def check_admin_denied)
qed

theorem unauthorized_is_denied_witness:
  "dispatch shop_bot 2002 (Command_update Cmd_update [''42'', ''19.99''] :: unit update) fresh
     = fresh\<lparr>effects := [Reply_text (Not_authorized En)]\<rparr>
   \<and> dispatch shop_bot 2002 (Callback_update ''toggle_low_stock'' :: unit update) fresh
     = fresh\<lparr>effects := [Answer_callback, Edit_message_text (Not_authorized En)]\<rparr>
   \<and> dispatch (shop_bot\<lparr>admin_ids_of := []\<rparr>) 1001 (Text_update ''10'' None :: unit update) fresh
     = fresh\<lparr>effects := [Reply_text (Not_authorized En)]\<rparr>"
proof -
  have a: "admin_ids_of shop_bot = [] \<or> 2002 \<notin> set (admin_ids_of shop_bot)"
    by (simp add: shop_bot_def)
  have e: "admin_ids_of (shop_bot\<lparr>admin_ids_of := []\<rparr>) = []
           \<or> 1001 \<notin> set (admin_ids_of (shop_bot\<lparr>admin_ids_of := []\<rparr>))"
    by simp
  have l: "get_language (bot_data fresh) = En" "effects fresh = []"
    by (simp_all add: fresh_def active_settings_def get_language_def)
  from unauthorized_is_denied [OF a, of "Command_update Cmd_update [''42'', ''19.99'']" fresh]
    unauthorized_is_denied [OF a, of "Callback_update ''toggle_low_stock''" fresh]
    unauthorized_is_denied [OF e, of "Text_update ''10'' None" fresh] l
  show ?thesis by simp
qed




subsection \<open>The flags of a conversation\<close>

lemma list_ex_nonempty: "list_ex P xs \<Longrightarrow> xs \<noteq> []"
  by auto

lemma reply_flags:
  "user_data (dispatch b user_id (Text_update reply fetched) c) =
     (if authorised b user_id \<and> answer_accepted b (user_data c) reply fetched
      then clear_active (user_data c) else user_data c)"
proof (cases "authorised b user_id")
  case False
  then have "admin_ids_of b = [] \<or> user_id \<notin> set (admin_ids_of b)"
    by (auto simp: authorised_def)
  with False show ?thesis
    by (simp add: dispatch_def handle_text_def check_admin_denied)
next
  case True
  then have ok: "check_admin (admin_ids_of b) Message user_id c = (True, c)"
    by (simp add: authorised_def check_admin_allowed)
  show ?thesis
  proof (cases "awaiting_threshold (user_data c)")
    case thr: True
    with True show ?thesis
      by (simp add: dispatch_def handle_text_def ok Let_def answer_accepted_def clear_active_def
          split: option.splits)
  next
    case nthr: False
    show ?thesis
    proof (cases "awaiting_watch_product (user_data c)")
      case w: True
      with True nthr show ?thesis
        by (auto simp: dispatch_def handle_text_def ok Let_def answer_accepted_def clear_active_def
            split: option.splits dest: list_ex_nonempty)
    next
      case nw: False
      with True nthr show ?thesis
        by (simp add: dispatch_def handle_text_def ok Let_def answer_accepted_def clear_active_def
            CURRENCY_SYMBOLS_def)
    qed
  qed
qed

lemma prompt_flags:
  assumes "is_prompt (Callback_update d :: 'a update)"
  shows "user_data (dispatch b user_id (Callback_update d :: 'a update) c) =
           (if authorised b user_id then own_flag d (user_data c) else user_data c)"
proof (cases "authorised b user_id")
  case False
  then have "admin_ids_of b = [] \<or> user_id \<notin> set (admin_ids_of b)"
    by (auto simp: authorised_def)
  with False show ?thesis
    by (simp add: dispatch_def button_def check_admin_denied)
next
  case True
  then have ok: "\<And>c'. check_admin (admin_ids_of b) Callback_query user_id c' = (True, c')"
    by (simp add: authorised_def check_admin_allowed)
  from assms True show ?thesis
    by (auto simp: dispatch_def button_def ok Let_def own_flag_def)
qed

lemma clear_active_le: "flags_set (clear_active f) \<le> flags_set f"
  by (simp add: clear_active_def flags_set_def)

lemma own_flag_idle:
  "no_flag f \<Longrightarrow> flags_set (own_flag d f) \<le> 1"
  by (auto simp: own_flag_def no_flag_def flags_set_def split: if_splits)

lemma step_at_most_one:
  assumes "at_most_one_flag (user_data c)" "is_dialogue u"
    and "is_prompt u \<Longrightarrow> no_flag (user_data c)"
  shows "at_most_one_flag (user_data (dispatch b user_id u c))"
proof (cases u)
  case (Command_update cmd args)
  with assms show ?thesis by simp
next
  case (Callback_update d)
  with assms have p: "is_prompt (Callback_update d :: 'a update)" by simp
  with assms Callback_update have "no_flag (user_data c)" by simp
  then have "flags_set (own_flag d (user_data c)) \<le> 1" by (rule own_flag_idle)
  with assms(1) show ?thesis
    unfolding Callback_update by (simp add: prompt_flags [OF p] at_most_one_flag_def)
next
  case (Text_update reply fetched)
  have "flags_set (clear_active (user_data c)) \<le> flags_set (user_data c)"
    by (rule clear_active_le)
  with assms(1) show ?thesis
    unfolding Text_update by (simp add: reply_flags at_most_one_flag_def)
qed

lemma run_at_most_one:
  "at_most_one_flag (user_data c) \<Longrightarrow> list_all is_dialogue us \<Longrightarrow>
   prompts_when_idle b user_id us c \<Longrightarrow>
   at_most_one_flag (user_data (run b user_id (take k us) c))"
proof (induction us arbitrary: c k)
  case Nil
  then show ?case by simp
next
  case (Cons u us)
  show ?case
  proof (cases k)
    case 0
    with Cons.prems show ?thesis by simp
  next
    case (Suc j)
    from Cons.prems have "at_most_one_flag (user_data (dispatch b user_id u c))"
      by (intro step_at_most_one) (auto split: if_splits)
    with Cons.prems Suc show ?thesis
      by (simp add: Cons.IH)
  qed
qed

text \<open>
  C3, as the claim states it, fails: a prompt callback sets its own flag and does not
  clear the others, so after the callbacks \<open>set_threshold\<close> and \<open>watch_product\<close> of an
  authorised user two flags are set.
\<close>

theorem two_prompts_set_two_flags:
  "user_data (run shop_bot 1001
      [Callback_update ''set_threshold'', Callback_update ''watch_product'' :: unit update] fresh)
     = \<lparr>awaiting_threshold = True, awaiting_watch_product = True, awaiting_currency = False\<rparr>
   \<and> \<not> at_most_one_flag (user_data (run shop_bot 1001
      [Callback_update ''set_threshold'', Callback_update ''watch_product'' :: unit update] fresh))"
  by (simp add: dispatch_def button_def check_admin_def shop_bot_def fresh_def Let_def
      at_most_one_flag_def flags_set_def)

text \<open>
  C3, amended. In a conversation of prompt callbacks and replies that starts with at most
  one flag set and in which every prompt callback arrives while no flag is set, at most
  one flag is set after every update. A prompt callback of an authorised sender sets its
  own flag and leaves the other two as they are; a reply of an authorised sender that is
  accepted clears the flag of the prompt it answers, and any other reply changes no flag.
\<close>

theorem flags_in_dialogue:
  "(at_most_one_flag (user_data c) \<and> list_all is_dialogue us \<and> prompts_when_idle b user_id us c
      \<longrightarrow> (\<forall>k. at_most_one_flag (user_data (run b user_id (take k us) c))))
   \<and> (is_prompt (Callback_update d :: 'a update) \<longrightarrow>
        user_data (dispatch b user_id (Callback_update d :: 'a update) c) =
          (if authorised b user_id then own_flag d (user_data c) else user_data c))
   \<and> user_data (dispatch b user_id (Text_update reply fetched :: 'a update) c) =
        (if authorised b user_id \<and> answer_accepted b (user_data c) reply fetched
         then clear_active (user_data c) else user_data c)"
  by (simp add: run_at_most_one prompt_flags reply_flags)

lemmas dialogue_eval =
  dispatch_def button_def handle_text_def check_admin_def shop_bot_def fresh_def Let_def
  at_most_one_flag_def no_flag_def flags_set_def ascii_int_def ascii_upper_def
  ascii_numeric_def CURRENCY_SYMBOLS_def active_settings_def get_language_def

theorem flags_in_dialogue_witness:
  "at_most_one_flag (user_data fresh)
   \<and> list_all is_dialogue settings_dialogue
   \<and> prompts_when_idle shop_bot 1001 settings_dialogue fresh
   \<and> at_most_one_flag (user_data (run shop_bot 1001 (take 2 settings_dialogue) fresh))
   \<and> at_most_one_flag (user_data (run shop_bot 1001 (take 5 settings_dialogue) fresh))
   \<and> user_data (dispatch shop_bot 1001 (Callback_update ''set_currency'' :: unit update) fresh)
       = \<lparr>awaiting_threshold = False, awaiting_watch_product = False, awaiting_currency = True\<rparr>
   \<and> user_data (dispatch shop_bot 1001 (Text_update ''eur'' None :: unit update)
        awaiting_currency_only) = user_data fresh"
proof -
  have start: "at_most_one_flag (user_data fresh)"
    by (simp add: fresh_def at_most_one_flag_def flags_set_def)
  have dialogue: "list_all is_dialogue settings_dialogue"
    by (simp add: settings_dialogue_def)
  have idle: "prompts_when_idle shop_bot 1001 settings_dialogue fresh"
    by (simp add: settings_dialogue_def dialogue_eval)
  have auth: "authorised shop_bot 1001"
    by (simp add: authorised_def shop_bot_def)
  have prompt: "is_prompt (Callback_update ''set_currency'' :: unit update)"
    by simp
  have acc: "answer_accepted shop_bot (user_data awaiting_currency_only) ''eur'' (None :: product list option)"
    by (simp add: answer_accepted_def awaiting_currency_only_def shop_bot_def ascii_upper_def)
  have own: "own_flag ''set_currency'' (user_data fresh)
     = \<lparr>awaiting_threshold = False, awaiting_watch_product = False, awaiting_currency = True\<rparr>"
    by (simp add: own_flag_def fresh_def)
  have clr: "clear_active (user_data awaiting_currency_only) = user_data fresh"
    by (simp add: clear_active_def awaiting_currency_only_def fresh_def)
  note inst = flags_in_dialogue [of fresh settings_dialogue shop_bot 1001 "''set_currency''"]
  from inst [of "''eur''" "None :: product list option"] start dialogue idle
  have inv: "\<forall>k. at_most_one_flag (user_data (run shop_bot 1001 (take k settings_dialogue) fresh))"
    by blast
  from inst [of "''eur''" "None :: product list option"] prompt auth own
  have p: "user_data (dispatch shop_bot 1001 (Callback_update ''set_currency'' :: unit update) fresh)
       = \<lparr>awaiting_threshold = False, awaiting_watch_product = False, awaiting_currency = True\<rparr>"
    by simp
  from flags_in_dialogue [of awaiting_currency_only "[]" shop_bot 1001 "''set_currency''" "''eur''"
      "None :: product list option"]
    auth acc clr
  have r: "user_data (dispatch shop_bot 1001 (Text_update ''eur'' None :: unit update)
        awaiting_currency_only) = user_data fresh"
    by simp
  from start dialogue idle inv p r show ?thesis by blast
qed

end
